theory Spec2Isabelle
  imports Complex_Main "HOL-Library.Multiset" "HOL-Library.Log_Nat"
begin

section \<open>Values of the tables\<close>

text \<open>
  The two programs, \<^verbatim>\<open>main.py\<close> (the batch script) and
  \<^verbatim>\<open>match_bingo_sample_data_analysis.py\<close> (the interactive dashboard), work on
  pandas tables. A pandas timestamp is a count of nanoseconds, a time difference likewise;
  \<^verbatim>\<open>pd.Timedelta(days=n)\<close> is \<open>n\<close> days of nanoseconds and \<^verbatim>\<open>.dt.days\<close> is the
  floor of a difference in whole days.
\<close>

type_synonym timestamp = int

definition ns_per_day :: int where
  "ns_per_day = 86400000000000"

definition Timedelta :: "int \<Rightarrow> int" where
  "Timedelta days = days * ns_per_day"

definition dt_days :: "int \<Rightarrow> int" where
  "dt_days delta = delta div ns_per_day"

text \<open>
  A float64 cell is a finite number, an infinity or NaN. In this first model finite
  arithmetic is exact; what is modelled is where a float64 operation leaves the finite
  numbers: a division by zero gives an infinity or NaN and raises nothing, and NaN is
  skipped by \<^verbatim>\<open>Series.mean\<close>. The rounding of float64 arithmetic is modelled in the
  section on float64 arithmetic below, for the claims that depend on it.
\<close>

datatype fval = Fin real | PInf | NInf | NaN

definition signed_inf :: "real \<Rightarrow> fval" where
  "signed_inf s = (if s = 0 then NaN else if 0 < s then PInf else NInf)"

definition fdiv :: "real \<Rightarrow> real \<Rightarrow> fval" where
  "fdiv a b = (if b = 0 then signed_inf a else Fin (a / b))"

fun fmul :: "fval \<Rightarrow> fval \<Rightarrow> fval" where
  "fmul NaN _ = NaN"
| "fmul _ NaN = NaN"
| "fmul (Fin a) (Fin b) = Fin (a * b)"
| "fmul (Fin a) PInf = signed_inf a"
| "fmul (Fin a) NInf = signed_inf (- a)"
| "fmul PInf (Fin b) = signed_inf b"
| "fmul NInf (Fin b) = signed_inf (- b)"
| "fmul PInf PInf = PInf"
| "fmul PInf NInf = NInf"
| "fmul NInf PInf = NInf"
| "fmul NInf NInf = PInf"

fun fadd :: "fval \<Rightarrow> fval \<Rightarrow> fval" where
  "fadd NaN _ = NaN"
| "fadd _ NaN = NaN"
| "fadd (Fin a) (Fin b) = Fin (a + b)"
| "fadd PInf NInf = NaN"
| "fadd NInf PInf = NaN"
| "fadd PInf _ = PInf"
| "fadd _ PInf = PInf"
| "fadd NInf _ = NInf"
| "fadd _ NInf = NInf"

text \<open>The sum of a column divided by the number of its cells, a positive count.\<close>

fun fdiv_count :: "fval \<Rightarrow> nat \<Rightarrow> fval" where
  "fdiv_count (Fin s) n = Fin (s / real n)"
| "fdiv_count v n = v"

text \<open>
  \<^verbatim>\<open>Series.mean()\<close> with its default \<^verbatim>\<open>skipna=True\<close>: the NaN cells are left out,
  the others are added up from zero and divided by their number; a column with no cell
  left has the mean NaN.
\<close>

definition series_mean :: "fval list \<Rightarrow> fval" where
  "series_mean xs =
     (let ys = filter (\<lambda>v. v \<noteq> NaN) xs
      in if ys = [] then NaN else fdiv_count (fold fadd ys (Fin 0)) (length ys))"

section \<open>Tables\<close>

text \<open>
  One row of the loaded file, with the four columns both programs read. The loader
  (\<^verbatim>\<open>pd.read_excel\<close>, \<^verbatim>\<open>pd.read_csv\<close>, \<^verbatim>\<open>pd.to_datetime\<close>) is outside the model:
  a table is taken as loaded, every cell present, with these four columns and no column
  named like a derived one. The programs compute on whole columns; pandas applies an
  arithmetic operation or a comparison of columns cell by cell, so a derived column is
  given here by its cell in each row.
\<close>

record user_record =
  date_joined :: timestamp
  last_login_date :: timestamp
  total_deposit :: real
  total_games_played :: int

text \<open>The rows after \<^verbatim>\<open>read_data_and_prepare\<close> of \<^verbatim>\<open>main.py\<close>.\<close>

record main_row = user_record +
  cust_lifetime_days :: int
  cust_lifetime_months :: real
  monthly_revenue :: fval

text \<open>
  The rows after \<^verbatim>\<open>read_data_and_prepare\<close> of the dashboard; its third derived column
  is named \<^verbatim>\<open>monthly_revenue\<close> as well.
\<close>

record app_row = user_record +
  lifetime_days :: int
  lifetime_months :: real
  app_monthly_revenue :: fval

datatype label = Q1 | Q2 | Q3 | Q4

text \<open>
  A table is its rows and the two columns the metric stages assign to it; a column that
  has not been assigned is absent (\<open>None\<close>). A cell of the quartile column is a label
  or the missing category.
\<close>

record 'r frame =
  rows :: "'r list"
  churned_col :: "bool list option"
  quartile_col :: "label option list option"

text \<open>
  The exceptions. KeyError, ValueError and TypeError are what Python and pandas raise;
  EmptyDatasetError is the name the specification gives to the error of an empty table,
  and no line of either program raises it.
\<close>

datatype error = KeyError string | ValueError string | TypeError string | EmptyDatasetError

text \<open>The columns of a table by name, each with the type of its cells.\<close>

datatype series =
  Times "timestamp list" | Ints "int list" | Floats "fval list" | Flags "bool list"
  | Cats "label option list"

text \<open>
  \<^verbatim>\<open>df[name]\<close> on the columns of a table: a name that is no column raises KeyError.
\<close>

definition getitem :: "(string \<times> series) list \<Rightarrow> string \<Rightarrow> error + series" where
  "getitem cols name = (case map_of cols name of None \<Rightarrow> Inl (KeyError name) | Some s \<Rightarrow> Inr s)"

text \<open>
  The mean of a column as a float. A column of time stamps has a time stamp as its mean and
  a categorical column has none; neither can enter a product of floats, so both end in
  TypeError here.
\<close>

fun column_mean :: "series \<Rightarrow> error + fval" where
  "column_mean (Floats xs) = Inr (series_mean xs)"
| "column_mean (Ints xs) = Inr (series_mean (map (\<lambda>i. Fin (real_of_int i)) xs))"
| "column_mean (Flags xs) = Inr (series_mean (map (\<lambda>b. Fin (if b then 1 else 0)) xs))"
| "column_mean (Times xs) = Inl (TypeError ''unsupported operand type(s) for *'')"
| "column_mean (Cats xs) = Inl (TypeError ''category dtype does not support reduction mean'')"

section \<open>Quantile bucketing (\<^verbatim>\<open>pd.qcut\<close>) and grouping\<close>

text \<open>
  The edge at the quantile \<open>k / 4\<close> of a non-empty column, by linear interpolation
  between the two neighbours of the position \<open>(n - 1) * k / 4\<close> in the sorted column.
\<close>

definition quantile4 :: "real list \<Rightarrow> nat \<Rightarrow> real" where
  "quantile4 xs k =
     (let s = sort xs; m = (length xs - 1) * k; lo = m div 4; r = m mod 4
      in if r = 0 then s ! lo else s ! lo + (real r / 4) * (s ! Suc lo - s ! lo))"

datatype duplicates = Raise | Drop

definition edges_msg :: string where
  "edges_msg = ''Bin edges must be unique''"

definition labels_msg :: string where
  "labels_msg = ''Bin labels must be one fewer than the number of bin edges''"

text \<open>
  The bin of a value among sorted edges: the number of edges below it
  (\<^verbatim>\<open>searchsorted\<close>, side left), and the first bin for the lowest edge itself
  (\<^verbatim>\<open>include_lowest\<close>). The bins \<open>0\<close> and \<open>length bins\<close> lie outside the edges.
\<close>

definition bin_id :: "real list \<Rightarrow> real \<Rightarrow> nat" where
  "bin_id bins x = (if x = hd bins then 1 else length (filter (\<lambda>b. b < x) bins))"

definition cut_label :: "real list \<Rightarrow> label list \<Rightarrow> real \<Rightarrow> label option" where
  "cut_label bins labels x =
     (let i = bin_id bins x
      in if i = 0 \<or> i = length bins then None else Some (labels ! (i - 1)))"

text \<open>
  \<^verbatim>\<open>pd.qcut(x, 4, labels=labels, duplicates=dup)\<close>. The five edges are the quantiles
  0, 1/4, 1/2, 3/4 and 1 of the column. Edges that repeat raise ValueError under
  \<^verbatim>\<open>duplicates="raise"\<close> (the default) and are dropped under \<^verbatim>\<open>"drop"\<close>; after
  that the labels must be one fewer than the edges left, or ValueError is raised. The
  edges of an empty column are five NaN, which count as one edge repeated.
\<close>

definition qcut :: "int list \<Rightarrow> label list \<Rightarrow> duplicates \<Rightarrow> error + label option list" where
  "qcut x labels dup =
     (if x = [] then Inl (ValueError (case dup of Raise \<Rightarrow> edges_msg | Drop \<Rightarrow> labels_msg))
      else
        let xs = map real_of_int x;
            bins = map (quantile4 xs) [0, 1, 2, 3, 4];
            unique_bins = remdups bins
        in if length unique_bins < length bins \<and> dup = Raise then Inl (ValueError edges_msg)
           else
             let bins = (if length unique_bins < length bins then unique_bins else bins)
             in if length labels \<noteq> length bins - 1 then Inl (ValueError labels_msg)
                else Inr (map (cut_label bins labels) xs))"

text \<open>
  \<^verbatim>\<open>df.groupby(key, observed=observed)[col].mean()\<close> on a categorical key: one entry
  per category, in the order of the categories, with the mean of the cells of the rows
  that carry the category. With \<^verbatim>\<open>observed=True\<close> a category no row carries has no
  entry; otherwise its entry is NaN. Rows with the missing category are in no group.
\<close>

definition group_values :: "label \<Rightarrow> label option list \<Rightarrow> real list \<Rightarrow> real list" where
  "group_values c keys vals = map snd (filter (\<lambda>kv. fst kv = Some c) (zip keys vals))"

definition groupby_mean ::
  "bool \<Rightarrow> label list \<Rightarrow> label option list \<Rightarrow> real list \<Rightarrow> (label \<times> fval) list" where
  "groupby_mean observed categories keys vals =
     map (\<lambda>c. (c, series_mean (map Fin (group_values c keys vals))))
       (filter (\<lambda>c. if observed then Some c \<in> set keys else True) categories)"

text \<open>\<^verbatim>\<open>Series.reindex(idx)\<close>: one entry per label of \<open>idx\<close>, NaN where the series has none.\<close>

definition reindex :: "label list \<Rightarrow> (label \<times> fval) list \<Rightarrow> (label \<times> fval) list" where
  "reindex idx s = map (\<lambda>l. (l, case map_of s l of None \<Rightarrow> NaN | Some v \<Rightarrow> v)) idx"

section \<open>The batch script \<^verbatim>\<open>main.py\<close>\<close>

text \<open>
  \<^verbatim>\<open>read_data_and_prepare\<close>: the three derived columns, by their cells in one row
  (\<open>derive_main\<close>), for every row of the loaded table. The day difference is taken as
  it is.
\<close>

definition derive_main :: "user_record \<Rightarrow> main_row" where
  "derive_main r =
     (let days = dt_days (last_login_date r - date_joined r);
          months = real_of_int days / 30
      in \<lparr>date_joined = date_joined r, last_login_date = last_login_date r,
          total_deposit = total_deposit r, total_games_played = total_games_played r,
          cust_lifetime_days = days, cust_lifetime_months = months,
          monthly_revenue = fdiv (total_deposit r) months\<rparr>)"

definition read_data_and_prepare_main :: "user_record list \<Rightarrow> main_row frame" where
  "read_data_and_prepare_main file =
     \<lparr>rows = map derive_main file, churned_col = None, quartile_col = None\<rparr>"

text \<open>The columns of the batch table by name, for \<^verbatim>\<open>df[name]\<close>.\<close>

definition columns_main :: "main_row frame \<Rightarrow> (string \<times> series) list" where
  "columns_main df =
     [(''date_joined'', Times (map date_joined (rows df))),
      (''last_login_date'', Times (map last_login_date (rows df))),
      (''total_deposit'', Floats (map (\<lambda>r. Fin (total_deposit r)) (rows df))),
      (''total_games_played'', Ints (map total_games_played (rows df))),
      (''cust_lifetime_days'', Ints (map cust_lifetime_days (rows df))),
      (''cust_lifetime_months'', Floats (map (\<lambda>r. Fin (cust_lifetime_months r)) (rows df))),
      (''monthly_revenue'', Floats (map monthly_revenue (rows df)))]
     @ (case churned_col df of None \<Rightarrow> [] | Some c \<Rightarrow> [(''churned'', Flags c)])
     @ (case quartile_col df of None \<Rightarrow> [] | Some q \<Rightarrow> [(''games_played_quartile'', Cats q)])"

text \<open>\<^verbatim>\<open>(df['monthly_revenue'] * df['cust_lifetime_months']).mean()\<close>.\<close>

definition calculate_avg_clv_main :: "main_row frame \<Rightarrow> fval" where
  "calculate_avg_clv_main df =
     series_mean (map (\<lambda>r. fmul (monthly_revenue r) (Fin (cust_lifetime_months r))) (rows df))"

text \<open>
  \<^verbatim>\<open>identify_churn_users\<close> reads the wall clock (\<^verbatim>\<open>pd.Timestamp.today()\<close>); the value
  it reads is the parameter \<open>today\<close>. It assigns the column \<^verbatim>\<open>churned\<close> to the table it
  was given and returns that table.
\<close>

definition identify_churn_users :: "timestamp \<Rightarrow> main_row frame \<Rightarrow> int \<Rightarrow> main_row frame" where
  "identify_churn_users today df cutoff_days =
     (let cutoff_date = today - Timedelta cutoff_days
      in df\<lparr>churned_col := Some (map (\<lambda>r. last_login_date r < cutoff_date) (rows df))\<rparr>)"

text \<open>
  \<^verbatim>\<open>user_segmentation\<close> assigns the quartile column to the table and returns the summary;
  the table after the call is returned beside it. \<^verbatim>\<open>groupby\<close> is called without
  \<^verbatim>\<open>observed\<close>, whose default is a matter of the pandas version (False before 3.0):
  the parameter \<open>observed\<close>.
\<close>

definition user_segmentation ::
  "bool \<Rightarrow> main_row frame \<Rightarrow> error + ((label \<times> fval) list \<times> main_row frame)" where
  "user_segmentation observed df =
     (case qcut (map total_games_played (rows df)) [Q1, Q2, Q3, Q4] Raise of
        Inl e \<Rightarrow> Inl e
      | Inr q \<Rightarrow>
          let df' = df\<lparr>quartile_col := Some q\<rparr>
          in Inr (groupby_mean observed [Q1, Q2, Q3, Q4] q (map total_deposit (rows df')), df'))"

text \<open>
  What \<^verbatim>\<open>main\<close> hands to its presentation calls (the two charts, the table of
  \<^verbatim>\<open>describe\<close> and \<^verbatim>\<open>present\<close>), all of which come after the last computation: an
  exception before them leaves nothing shown or printed.
\<close>

record main_report =
  rep_df :: "main_row frame"
  rep_segments :: "(label \<times> fval) list"
  rep_avg_clv :: fval
  rep_num_churned :: nat
  rep_churn_rate :: fval

definition main :: "bool \<Rightarrow> timestamp \<Rightarrow> user_record list \<Rightarrow> error + main_report" where
  "main observed today file =
     (let df = read_data_and_prepare_main file;
          avg_clv = calculate_avg_clv_main df;
          df = identify_churn_users today df 30
      in case churned_col df of
           None \<Rightarrow> Inl (KeyError ''churned'')
         | Some c \<Rightarrow>
             let num_churned = length (filter (\<lambda>b. b) c);
                 churn_rate = fdiv (real num_churned) (real (length (rows df)))
             in (case user_segmentation observed df of
                   Inl e \<Rightarrow> Inl e
                 | Inr (df_avg_deposit_by_segment, df) \<Rightarrow>
                     Inr \<lparr>rep_df = df, rep_segments = df_avg_deposit_by_segment,
                          rep_avg_clv = avg_clv, rep_num_churned = num_churned,
                          rep_churn_rate = churn_rate\<rparr>))"

section \<open>The dashboard \<^verbatim>\<open>match_bingo_sample_data_analysis.py\<close>\<close>

text \<open>
  The dashboard keeps the reference time in \<^verbatim>\<open>st.session_state\<close>, a dictionary that
  outlives a run of the script; reading a key it does not hold raises KeyError.
\<close>

type_synonym session_state = "string \<rightharpoonup> timestamp"

definition Timestamp :: "int \<Rightarrow> timestamp" where
  "Timestamp date = date * ns_per_day"

text \<open>
  \<^verbatim>\<open>read_data_and_prepare\<close> of the dashboard reads the reference time from the
  session state, takes the days from the day of joining to it and clips them from below
  at 1 (\<^verbatim>\<open>.clip(lower=1)\<close>).
\<close>

definition derive_app :: "timestamp \<Rightarrow> user_record \<Rightarrow> app_row" where
  "derive_app today r =
     (let days = max 1 (dt_days (today - date_joined r));
          months = real_of_int days / 30
      in \<lparr>date_joined = date_joined r, last_login_date = last_login_date r,
          total_deposit = total_deposit r, total_games_played = total_games_played r,
          lifetime_days = days, lifetime_months = months,
          app_monthly_revenue = fdiv (total_deposit r) months\<rparr>)"

definition read_data_and_prepare_app :: "session_state \<Rightarrow> user_record list \<Rightarrow> error + app_row frame" where
  "read_data_and_prepare_app session file =
     (case session ''as_of_ts'' of
        None \<Rightarrow> Inl (KeyError ''as_of_ts'')
      | Some today \<Rightarrow>
          Inr \<lparr>rows = map (derive_app today) file, churned_col = None, quartile_col = None\<rparr>)"

definition columns_app :: "app_row frame \<Rightarrow> (string \<times> series) list" where
  "columns_app df =
     [(''date_joined'', Times (map date_joined (rows df))),
      (''last_login_date'', Times (map last_login_date (rows df))),
      (''total_deposit'', Floats (map (\<lambda>r. Fin (total_deposit r)) (rows df))),
      (''total_games_played'', Ints (map total_games_played (rows df))),
      (''lifetime_days'', Ints (map lifetime_days (rows df))),
      (''lifetime_months'', Floats (map (\<lambda>r. Fin (lifetime_months r)) (rows df))),
      (''monthly_revenue'', Floats (map app_monthly_revenue (rows df)))]
     @ (case churned_col df of None \<Rightarrow> [] | Some c \<Rightarrow> [(''churned'', Flags c)])
     @ (case quartile_col df of None \<Rightarrow> [] | Some q \<Rightarrow> [(''games_quartile'', Cats q)])"

text \<open>
  \<^verbatim>\<open>df['monthly_revenue'].mean() * df['cust_lifetime_months'].mean()\<close>, the left
  factor first.
\<close>

definition calculate_avg_clv_app :: "app_row frame \<Rightarrow> error + fval" where
  "calculate_avg_clv_app df =
     (case getitem (columns_app df) ''monthly_revenue'' of
        Inl e \<Rightarrow> Inl e
      | Inr revenue \<Rightarrow>
          (case column_mean revenue of
             Inl e \<Rightarrow> Inl e
           | Inr avg_revenue \<Rightarrow>
               (case getitem (columns_app df) ''cust_lifetime_months'' of
                  Inl e \<Rightarrow> Inl e
                | Inr months \<Rightarrow>
                    (case column_mean months of
                       Inl e \<Rightarrow> Inl e
                     | Inr avg_months \<Rightarrow> Inr (fmul avg_revenue avg_months)))))"

definition tag_churn :: "session_state \<Rightarrow> app_row frame \<Rightarrow> int \<Rightarrow> error + app_row frame" where
  "tag_churn session df cut_off =
     (case session ''as_of_ts'' of
        None \<Rightarrow> Inl (KeyError ''as_of_ts'')
      | Some as_of_ts \<Rightarrow>
          let limit = as_of_ts - Timedelta cut_off
          in Inr (df\<lparr>churned_col := Some (map (\<lambda>r. last_login_date r < limit) (rows df))\<rparr>))"

definition quartile_summary :: "app_row frame \<Rightarrow> error + ((label \<times> fval) list \<times> app_row frame)" where
  "quartile_summary df =
     (case qcut (map total_games_played (rows df)) [Q1, Q2, Q3, Q4] Drop of
        Inl e \<Rightarrow> Inl e
      | Inr q \<Rightarrow>
          let df' = df\<lparr>quartile_col := Some q\<rparr>
          in Inr (reindex [Q1, Q2, Q3, Q4]
                    (groupby_mean True [Q1, Q2, Q3, Q4] q (map total_deposit (rows df'))),
                  df'))"

text \<open>
  One run of the script: the controls (the as-of date, in days, and the cut-off) and the
  uploaded file are its inputs, the session state is what an earlier run left behind.
  Without a file the script stops after its notice.
\<close>

record app_report =
  app_df :: "app_row frame"
  app_cohort_size :: nat
  app_avg_clv :: fval
  app_q_deposits :: "(label \<times> fval) list"
  app_inactive :: nat
  app_inactive_rate :: fval

datatype app_outcome = Stopped | Dashboard app_report

definition app_script ::
  "session_state \<Rightarrow> int \<Rightarrow> int \<Rightarrow> user_record list option \<Rightarrow> error + app_outcome" where
  "app_script session as_of cutoff_days uploaded_file =
     (let session = session(''as_of_ts'' \<mapsto> Timestamp as_of)
      in case uploaded_file of
           None \<Rightarrow> Inr Stopped
         | Some file \<Rightarrow>
            (case read_data_and_prepare_app session file of
               Inl e \<Rightarrow> Inl e
             | Inr df \<Rightarrow>
                (case tag_churn session df cutoff_days of
                   Inl e \<Rightarrow> Inl e
                 | Inr df \<Rightarrow>
                    (case calculate_avg_clv_app df of
                       Inl e \<Rightarrow> Inl e
                     | Inr avg_clv \<Rightarrow>
                        (case quartile_summary df of
                           Inl e \<Rightarrow> Inl e
                         | Inr (q_deposits, df) \<Rightarrow>
                            (case churned_col df of
                               None \<Rightarrow> Inl (KeyError ''churned'')
                             | Some c \<Rightarrow>
                                 let inactive = length (filter (\<lambda>b. b) c)
                                 in Inr (Dashboard
                                      \<lparr>app_df = df, app_cohort_size = length (rows df),
                                       app_avg_clv = avg_clv, app_q_deposits = q_deposits,
                                       app_inactive = inactive,
                                       app_inactive_rate =
                                         fdiv (real inactive) (real (length (rows df)))\<rparr>)))))))"

section \<open>Float64 arithmetic with its rounding\<close>



























section \<open>Sample tables\<close>

text \<open>
  Three users for the concrete runs below: joined on day 20000 and last seen 30 and 60 days
  later, and one who joined on day 20100 and was never seen again after that day.
\<close>

definition user_a :: user_record where
  "user_a = \<lparr>date_joined = Timestamp 20000, last_login_date = Timestamp 20030,
             total_deposit = 30, total_games_played = 0\<rparr>"

definition user_b :: user_record where
  "user_b = \<lparr>date_joined = Timestamp 20000, last_login_date = Timestamp 20060,
             total_deposit = 30, total_games_played = 4\<rparr>"

definition user_c :: user_record where
  "user_c = \<lparr>date_joined = Timestamp 20100, last_login_date = Timestamp 20100,
             total_deposit = 10, total_games_played = 4\<rparr>"





section \<open>Buckets, as the specification words them\<close>



section \<open>Facts about columns and means\<close>

lemmas eval_defs = user_a_def user_b_def user_c_def Timestamp_def Timedelta_def dt_days_def
  ns_per_day_def derive_main_def derive_app_def read_data_and_prepare_main_def
  calculate_avg_clv_main_def series_mean_def fdiv_def signed_inf_def Let_def



lemma calculate_avg_clv_app_KeyError:
  "calculate_avg_clv_app df = Inl (KeyError ''cust_lifetime_months'')"
  by (simp add: calculate_avg_clv_app_def getitem_def columns_app_def split: option.splits)

section \<open>Facts about grouping\<close>










section \<open>Facts about the stages\<close>

lemma derive_app_floor:
  "1 \<le> lifetime_days (derive_app today u) \<and> 0 < lifetime_months (derive_app today u)
   \<and> app_monthly_revenue (derive_app today u)
       = Fin (total_deposit (derive_app today u) / lifetime_months (derive_app today u))"
proof -
  have "1 \<le> max 1 (dt_days (today - date_joined u))" by simp
  then have "0 < real_of_int (max 1 (dt_days (today - date_joined u))) / 30" by simp
  then show ?thesis
    by (simp add: derive_app_def Let_def fdiv_def)
qed

lemma last_login_date_derive_main: "last_login_date (derive_main u) = last_login_date u"
  by (simp add: derive_main_def Let_def)

lemma app_script_session:
  "app_script session1 as_of cutoff_days uploaded = app_script session2 as_of cutoff_days uploaded"
  by (cases uploaded) (simp_all add: app_script_def read_data_and_prepare_app_def tag_churn_def Let_def)

lemma columns_main_churn:
  "name \<noteq> ''churned'' \<Longrightarrow>
     map_of (columns_main (identify_churn_users today df cutoff_days)) name
       = map_of (columns_main df) name"
  by (simp add: columns_main_def identify_churn_users_def Let_def split: option.splits)

lemma columns_main_quartile:
  "name \<noteq> ''games_played_quartile'' \<Longrightarrow>
     map_of (columns_main (df\<lparr>quartile_col := Some q\<rparr>)) name = map_of (columns_main df) name"
  by (simp add: columns_main_def Let_def split: option.splits)


lemma user_segmentation_table:
  "user_segmentation observed df = Inr (s, df') \<Longrightarrow> \<exists>q. df' = df\<lparr>quartile_col := Some q\<rparr>"
  by (auto simp: user_segmentation_def Let_def split: sum.splits)


section \<open>Facts about the quantile edges\<close>

lemma quantile4_lowest: "quantile4 xs 0 = sort xs ! 0"
  by (simp add: quantile4_def)

lemma quantile4_highest: "quantile4 xs 4 = sort xs ! (length xs - 1)"
  by (simp add: quantile4_def)

lemma sort_bounds:
  assumes "x \<in> set xs"
  shows "sort xs ! 0 \<le> x \<and> x \<le> sort xs ! (length xs - 1)"
proof -
  from assms have "x \<in> set (sort xs)" by simp
  then obtain i where i: "i < length (sort xs)" "sort xs ! i = x"
    by (metis in_set_conv_nth)
  have s: "sorted (sort xs)" by simp
  have "sort xs ! 0 \<le> sort xs ! i"
    using s i(1) by (intro sorted_nth_mono) simp_all
  moreover have "sort xs ! i \<le> sort xs ! (length xs - 1)"
    using s i(1) by (intro sorted_nth_mono) simp_all
  ultimately show ?thesis using i(2) by simp
qed

lemma qcut_success:
  assumes "qcut x [Q1, Q2, Q3, Q4] dup = Inr q"
  shows "x \<noteq> []
       \<and> distinct (map (quantile4 (map real_of_int x)) [0, 1, 2, 3, 4])
       \<and> q = map (cut_label (map (quantile4 (map real_of_int x)) [0, 1, 2, 3, 4]) [Q1, Q2, Q3, Q4])
               (map real_of_int x)"
proof -
  let ?bins = "map (quantile4 (map real_of_int x)) [0, 1, 2, 3, 4]"
  have ne: "x \<noteq> []"
    using assms by (auto simp: qcut_def)
  have len: "length (remdups ?bins) \<le> 5"
    using length_remdups_leq [of ?bins] by simp
  have five: "length (remdups ?bins) = 5"
  proof (rule ccontr)
    assume "length (remdups ?bins) \<noteq> 5"
    with len have "length (remdups ?bins) < 5" by simp
    then have "\<exists>e. qcut x [Q1, Q2, Q3, Q4] dup = Inl e"
      using ne by (cases dup) (simp_all add: qcut_def Let_def del: remdups.simps)
    with assms show False by simp
  qed
  have l5: "length ?bins = 5" by simp
  have d: "distinct ?bins"
    using five l5 by (metis length_remdups_eq remdups_id_iff_distinct)
  have "qcut x [Q1, Q2, Q3, Q4] dup = Inr (map (cut_label ?bins [Q1, Q2, Q3, Q4]) (map real_of_int x))"
    using ne five by (simp add: qcut_def Let_def del: remdups.simps)
  with assms d ne show ?thesis by simp
qed

lemma bin_id_range:
  assumes "x \<in> set xs"
  shows "1 \<le> bin_id (map (quantile4 xs) [0, 1, 2, 3, 4]) x
       \<and> bin_id (map (quantile4 xs) [0, 1, 2, 3, 4]) x \<le> 4"
proof (cases "x = quantile4 xs 0")
  case True
  then show ?thesis by (simp add: bin_id_def)
next
  case False
  let ?bins = "map (quantile4 xs) [0, 1, 2, 3, 4]"
  have lo: "quantile4 xs 0 < x"
    using False sort_bounds [OF assms] by (simp add: quantile4_lowest)
  have hi: "\<not> quantile4 xs 4 < x"
    using sort_bounds [OF assms] by (simp add: quantile4_highest)
  have "quantile4 xs 0 \<in> set (filter (\<lambda>b. b < x) ?bins)"
    using lo by simp
  then have a: "1 \<le> length (filter (\<lambda>b. b < x) ?bins)"
    by (metis One_nat_def Suc_leI length_pos_if_in_set)
  have "quantile4 xs 4 \<in> set ?bins" by simp
  then have "length (filter (\<lambda>b. b < x) ?bins) < length ?bins"
    using hi by (rule length_filter_less)
  then have b: "length (filter (\<lambda>b. b < x) ?bins) \<le> 4" by simp
  from a b False show ?thesis by (simp add: bin_id_def)
qed

lemma cut_label_Some:
  assumes "x \<in> set xs"
  shows "\<exists>l. cut_label (map (quantile4 xs) [0, 1, 2, 3, 4]) [Q1, Q2, Q3, Q4] x = Some l"
  using bin_id_range [OF assms] by (simp add: cut_label_def Let_def)

lemma populations_sum:
  assumes "\<forall>c \<in> set q. c \<noteq> None"
  shows "length (filter (\<lambda>c. c = Some Q1) q) + length (filter (\<lambda>c. c = Some Q2) q)
       + length (filter (\<lambda>c. c = Some Q3) q) + length (filter (\<lambda>c. c = Some Q4) q) = length q"
  using assms
proof (induction q)
  case Nil
  then show ?case by simp
next
  case (Cons c q)
  then obtain l where "c = Some l" by auto
  with Cons show ?case by (cases l) simp_all
qed


section \<open>Facts about float64 sums of whole numbers\<close>































section \<open>Float64 runs on the sample tables\<close>













section \<open>The CLV formula\<close>

text \<open>
  Claim C1 says that the CLV estimator returns the mean of \<^verbatim>\<open>monthly_revenue\<close> times the
  mean of the lifetime in months, and not the mean of the products. On the table of
  \<open>user_a\<close> and \<open>user_b\<close> (revenues 30 and 15 a month, lifetimes 1 and 2 months) the
  batch estimator returns 30, the mean of the products, where the product of the means is
  33.75; the dashboard's estimator, which is written as the product of the means, asks
  for the column \<^verbatim>\<open>cust_lifetime_months\<close> that its table does not have and raises
  KeyError.
\<close>

theorem clv_is_mean_of_products_not_product_of_means:
  "calculate_avg_clv_main (read_data_and_prepare_main [user_a, user_b]) = Fin 30
   \<and> fmul (series_mean (map monthly_revenue (rows (read_data_and_prepare_main [user_a, user_b]))))
          (series_mean (map (\<lambda>r. Fin (cust_lifetime_months r))
             (rows (read_data_and_prepare_main [user_a, user_b]))))
       = Fin (135 / 4)
   \<and> calculate_avg_clv_app
        \<lparr>rows = map (derive_app (Timestamp 20090)) [user_a, user_b],
         churned_col = Some [True, False], quartile_col = None\<rparr>
       = Inl (KeyError ''cust_lifetime_months'')"
  by (simp add: eval_defs calculate_avg_clv_app_KeyError)


section \<open>The floor of the lifetime\<close>

text \<open>
  Claim C2 says that \<^verbatim>\<open>lifetime_days\<close> is at least 1 for every record, so that the
  division by the lifetime in months never divides by zero. The batch script takes the
  day difference as it is: for \<open>user_c\<close>, last seen on the day of joining, the lifetime
  is 0 days and 0 months, and the monthly revenue is the quotient of the deposit by zero,
  an infinity.
\<close>

theorem lifetime_days_zero_in_batch:
  "map cust_lifetime_days (rows (read_data_and_prepare_main [user_c])) = [0]
   \<and> map cust_lifetime_months (rows (read_data_and_prepare_main [user_c])) = [0]
   \<and> map monthly_revenue (rows (read_data_and_prepare_main [user_c])) = [PInf]"
  by (simp add: eval_defs)


section \<open>Churn tagging\<close>

text \<open>
  Claim C3. Given the reference time and a cut-off in days, the churn tagger marks a
  record churned if and only if its \<^verbatim>\<open>last_login_date\<close> is strictly earlier than the
  reference time minus the cut-off; a record whose last login is exactly the cut-off
  before the reference time is not churned. The reference time of the dashboard's
  \<^verbatim>\<open>tag_churn\<close> is the as-of time of the session state, that of the batch script's
  \<^verbatim>\<open>identify_churn_users\<close> is the clock reading.
\<close>

theorem churned_iff_strictly_before_cutoff:
  assumes "session ''as_of_ts'' = Some as_of"
  shows "(\<exists>flags. churned_col (identify_churn_users today df cutoff_days) = Some flags
            \<and> length flags = length (rows df)
            \<and> (\<forall>i < length (rows df).
                  flags ! i = (last_login_date (rows df ! i) < today - cutoff_days * ns_per_day)))
       \<and> (\<exists>tagged flags. tag_churn session adf cut_off = Inr tagged
            \<and> churned_col tagged = Some flags
            \<and> length flags = length (rows adf)
            \<and> (\<forall>i < length (rows adf).
                  flags ! i = (last_login_date (rows adf ! i) < as_of - cut_off * ns_per_day))
            \<and> (\<forall>i < length (rows adf).
                  last_login_date (rows adf ! i) = as_of - cut_off * ns_per_day \<longrightarrow> \<not> flags ! i))"
proof
  show "\<exists>flags. churned_col (identify_churn_users today df cutoff_days) = Some flags
            \<and> length flags = length (rows df)
            \<and> (\<forall>i < length (rows df).
                  flags ! i = (last_login_date (rows df ! i) < today - cutoff_days * ns_per_day))"
    by (simp add: identify_churn_users_def Timedelta_def Let_def)
next
  let ?flags = "map (\<lambda>r. last_login_date r < as_of - cut_off * ns_per_day) (rows adf)"
  have t: "tag_churn session adf cut_off = Inr (adf\<lparr>churned_col := Some ?flags\<rparr>)"
    using assms by (simp add: tag_churn_def Timedelta_def Let_def)
  have b: "\<forall>i < length (rows adf).
             last_login_date (rows adf ! i) = as_of - cut_off * ns_per_day \<longrightarrow> \<not> ?flags ! i"
    by simp
  have e: "\<forall>i < length (rows adf).
             ?flags ! i = (last_login_date (rows adf ! i) < as_of - cut_off * ns_per_day)"
    by simp
  show "\<exists>tagged flags. tag_churn session adf cut_off = Inr tagged
            \<and> churned_col tagged = Some flags
            \<and> length flags = length (rows adf)
            \<and> (\<forall>i < length (rows adf).
                  flags ! i = (last_login_date (rows adf ! i) < as_of - cut_off * ns_per_day))
            \<and> (\<forall>i < length (rows adf).
                  last_login_date (rows adf ! i) = as_of - cut_off * ns_per_day \<longrightarrow> \<not> flags ! i)"
    using t b e by (intro exI [of _ "adf\<lparr>churned_col := Some ?flags\<rparr>"] exI [of _ ?flags]) simp
qed

theorem churned_iff_strictly_before_cutoff_witness:
  "[''as_of_ts'' \<mapsto> Timestamp 20090] ''as_of_ts'' = Some (Timestamp 20090)
   \<and> last_login_date user_b = Timestamp 20090 - 30 * ns_per_day
   \<and> (\<exists>tagged. tag_churn [''as_of_ts'' \<mapsto> Timestamp 20090]
          \<lparr>rows = map (derive_app (Timestamp 20090)) [user_a, user_b],
           churned_col = None, quartile_col = None\<rparr> 30 = Inr tagged
        \<and> churned_col tagged = Some [True, False])"
proof -
  let ?s = "[''as_of_ts'' \<mapsto> Timestamp 20090]"
  let ?adf = "\<lparr>rows = map (derive_app (Timestamp 20090)) [user_a, user_b],
           churned_col = None, quartile_col = (None :: label option list option)\<rparr>"
  have h: "?s ''as_of_ts'' = Some (Timestamp 20090)" by simp
  have b: "last_login_date user_b = Timestamp 20090 - 30 * ns_per_day"
    by (simp add: user_b_def Timestamp_def ns_per_day_def)
  have r: "rows ?adf ! 0 = derive_app (Timestamp 20090) user_a"
          "rows ?adf ! 1 = derive_app (Timestamp 20090) user_b"
          "length (rows ?adf) = 2"
    by simp_all
  have l: "last_login_date (derive_app (Timestamp 20090) user_a) < Timestamp 20090 - 30 * ns_per_day"
          "\<not> last_login_date (derive_app (Timestamp 20090) user_b) < Timestamp 20090 - 30 * ns_per_day"
    by (simp_all add: eval_defs)
  from churned_iff_strictly_before_cutoff
         [where session = ?s and as_of = "Timestamp 20090" and adf = ?adf and cut_off = 30
            and today = "Timestamp 20090" and cutoff_days = 30
            and df = "read_data_and_prepare_main [user_a, user_b]", OF h]
  obtain tagged flags where t: "tag_churn ?s ?adf 30 = Inr tagged"
    and c: "churned_col tagged = Some flags"
    and n: "length flags = length (rows ?adf)"
    and f: "\<forall>i < length (rows ?adf).
              flags ! i = (last_login_date (rows ?adf ! i) < Timestamp 20090 - 30 * ns_per_day)"
    by blast
  have f0: "flags ! 0 = True" using f r l by (metis zero_less_numeral)
  have f1: "flags ! 1 = False" using f r l by (metis one_less_numeral_iff semiring_norm(76))
  have "length flags = 2" using n r by simp
  then have "flags = [flags ! 0, flags ! 1]"
    by (cases flags; cases "tl flags") auto
  with f0 f1 have "flags = [True, False]" by simp
  with t c h b show ?thesis by blast
qed


section \<open>The empty table\<close>

text \<open>
  Claim C4 says that a table with no rows makes the pipeline raise EmptyDatasetError
  before any output. The batch script has no such error: on the empty table its result is
  another one.
\<close>

theorem empty_table_not_EmptyDatasetError:
  "main False (Timestamp 20090) [] \<noteq> Inl EmptyDatasetError"
  by (simp add: main_def read_data_and_prepare_main_def identify_churn_users_def
      user_segmentation_def qcut_def Let_def)


text \<open>
  Claim C4, amended. On a table with no rows the batch script computes the CLV as the
  mean of an empty column, NaN, raising nothing, and aborts in the quartile bucketing
  with the ValueError of \<^verbatim>\<open>pd.qcut\<close>; the abort comes before every presentation call,
  so no metric, chart or other output is produced.
\<close>

theorem empty_table_aborts_in_bucketing:
  "main observed today [] = Inl (ValueError edges_msg)
   \<and> calculate_avg_clv_main (read_data_and_prepare_main []) = NaN"
  by (simp add: main_def read_data_and_prepare_main_def identify_churn_users_def
      user_segmentation_def qcut_def Let_def calculate_avg_clv_main_def series_mean_def)

section \<open>Ties in the games played\<close>

text \<open>
  Claim C5 says that the quartile bucketing of every table yields between one and four
  buckets that hold every row once. On the table of \<open>user_a\<close>, \<open>user_b\<close> and
  \<open>user_c\<close> (0, 4 and 4 games) the quantile edges are 0, 2, 4, 4 and 4: the batch
  script raises ValueError for the repeated edge, and the dashboard, which drops the
  repeated edges, raises ValueError for its four labels over the two bins left. Neither
  yields a bucket.
\<close>

theorem tied_games_raise:
  "user_segmentation observed (read_data_and_prepare_main [user_a, user_b, user_c])
     = Inl (ValueError edges_msg)
   \<and> quartile_summary
        \<lparr>rows = map (derive_app (Timestamp 20090)) [user_a, user_b, user_c],
         churned_col = None, quartile_col = None\<rparr>
     = Inl (ValueError labels_msg)"
  by code_simp


section \<open>The quartile summary\<close>




section \<open>Row order\<close>




section \<open>Runs on the same inputs\<close>

text \<open>
  Claim C8 says that two runs on the same file with the same as-of date and cut-off
  give the same output, the wall clock having no part in it. The batch script has no
  as-of date: its churn tagger reads the clock, and two runs on the same file at
  different times differ, here in the number of churned users.
\<close>

theorem batch_output_depends_on_clock:
  "main False (Timestamp 20070) [user_a, user_b] \<noteq> main False (Timestamp 20100) [user_a, user_b]"
proof -
  have a: "map_sum id rep_num_churned (main False (Timestamp 20070) [user_a, user_b]) = Inr 1"
    by code_simp
  have b: "map_sum id rep_num_churned (main False (Timestamp 20100) [user_a, user_b]) = Inr 2"
    by code_simp
  show ?thesis
  proof
    assume "main False (Timestamp 20070) [user_a, user_b] = main False (Timestamp 20100) [user_a, user_b]"
    with a b have "(Inr 1 :: error + nat) = Inr 2" by simp
    then show False by simp
  qed
qed


text \<open>
  Claim C8, amended. Two runs of the dashboard with the same as-of date, cut-off and file
  give the same outcome, whatever the session state earlier runs left behind. Two runs of
  the batch script on the same file give the same outcome when their clock readings put
  the last login of every record on the same side of the reading minus 30 days.
\<close>

theorem same_inputs_same_output:
  assumes "\<forall>r \<in> set table. (last_login_date r < today1 - 30 * ns_per_day)
                            = (last_login_date r < today2 - 30 * ns_per_day)"
  shows "main observed today1 table = main observed today2 table
       \<and> app_script session1 as_of cutoff_days uploaded
           = app_script session2 as_of cutoff_days uploaded"
proof
  let ?df = "read_data_and_prepare_main table"
  have "map (\<lambda>r. last_login_date r < today1 - Timedelta 30) (rows ?df)
      = map (\<lambda>r. last_login_date r < today2 - Timedelta 30) (rows ?df)"
    using assms
    by (simp add: read_data_and_prepare_main_def last_login_date_derive_main Timedelta_def)
  then have eq: "identify_churn_users today1 ?df 30 = identify_churn_users today2 ?df 30"
    by (simp add: identify_churn_users_def Let_def)
  show "main observed today1 table = main observed today2 table"
    unfolding main_def Let_def eq by (rule refl)
next
  show "app_script session1 as_of cutoff_days uploaded
           = app_script session2 as_of cutoff_days uploaded"
    by (rule app_script_session)
qed

theorem same_inputs_same_output_witness:
  "(last_login_date user_a < Timestamp 20100 - 30 * ns_per_day)
     = (last_login_date user_a < Timestamp 20200 - 30 * ns_per_day)
   \<and> (last_login_date user_b < Timestamp 20100 - 30 * ns_per_day)
     = (last_login_date user_b < Timestamp 20200 - 30 * ns_per_day)
   \<and> main False (Timestamp 20100) [user_a, user_b] = main False (Timestamp 20200) [user_a, user_b]
   \<and> app_script Map.empty 20090 30 (Some [user_a, user_b])
     = app_script [''as_of_ts'' \<mapsto> Timestamp 19000] 20090 30 (Some [user_a, user_b])"
proof -
  have a: "(last_login_date user_a < Timestamp 20100 - 30 * ns_per_day)
     = (last_login_date user_a < Timestamp 20200 - 30 * ns_per_day)"
    by (simp add: eval_defs)
  have b: "(last_login_date user_b < Timestamp 20100 - 30 * ns_per_day)
     = (last_login_date user_b < Timestamp 20200 - 30 * ns_per_day)"
    by (simp add: eval_defs)
  have h: "\<forall>r \<in> set [user_a, user_b]. (last_login_date r < Timestamp 20100 - 30 * ns_per_day)
                            = (last_login_date r < Timestamp 20200 - 30 * ns_per_day)"
    using a b by simp
  from same_inputs_same_output [OF h, of False Map.empty 20090 30 "Some [user_a, user_b]"
      "[''as_of_ts'' \<mapsto> Timestamp 19000]"] a b
  show ?thesis by blast
qed


section \<open>What the metric stages write\<close>

text \<open>
  Claim C9 says that the metric stages are read-only over the derived table. The churn
  tagger assigns a column to the table it is given: the table after it is not the table
  before it.
\<close>

theorem churn_stage_writes_table:
  "identify_churn_users (Timestamp 20090) (read_data_and_prepare_main [user_a]) 30
     \<noteq> read_data_and_prepare_main [user_a]"
  by (simp add: identify_churn_users_def read_data_and_prepare_main_def Let_def)


text \<open>
  Claim C9, amended. The churn tagger and the quartile bucketing each assign one column
  of their own to the table (\<^verbatim>\<open>churned\<close>, \<^verbatim>\<open>games_played_quartile\<close>), which the
  derived table does not have, and leave its rows and every other column as they were;
  the CLV estimator returns a number and assigns nothing.
\<close>

theorem metric_stages_keep_existing_columns:
  "rows (identify_churn_users today df cutoff_days) = rows df
   \<and> (name \<noteq> ''churned'' \<longrightarrow>
        getitem (columns_main (identify_churn_users today df cutoff_days)) name
          = getitem (columns_main df) name)
   \<and> (user_segmentation observed df = Inr (s, df') \<longrightarrow>
        rows df' = rows df
        \<and> (name \<noteq> ''games_played_quartile'' \<longrightarrow>
             getitem (columns_main df') name = getitem (columns_main df) name))
   \<and> getitem (columns_main (read_data_and_prepare_main table)) ''churned''
        = Inl (KeyError ''churned'')
   \<and> getitem (columns_main (read_data_and_prepare_main table)) ''games_played_quartile''
        = Inl (KeyError ''games_played_quartile'')"
proof (intro conjI impI)
  show "rows (identify_churn_users today df cutoff_days) = rows df"
    by (simp add: identify_churn_users_def Let_def)
next
  assume n: "name \<noteq> ''churned''"
  show "getitem (columns_main (identify_churn_users today df cutoff_days)) name
          = getitem (columns_main df) name"
    unfolding getitem_def columns_main_churn [OF n] by (rule refl)
next
  assume "user_segmentation observed df = Inr (s, df')"
  then obtain q where "df' = df\<lparr>quartile_col := Some q\<rparr>"
    using user_segmentation_table by blast
  then show "rows df' = rows df" by simp
next
  assume "user_segmentation observed df = Inr (s, df')" and n: "name \<noteq> ''games_played_quartile''"
  then obtain q where q: "df' = df\<lparr>quartile_col := Some q\<rparr>"
    using user_segmentation_table by blast
  show "getitem (columns_main df') name = getitem (columns_main df) name"
    unfolding getitem_def q columns_main_quartile [OF n] by (rule refl)
next
  show "getitem (columns_main (read_data_and_prepare_main table)) ''churned''
        = Inl (KeyError ''churned'')"
    by (simp add: getitem_def columns_main_def read_data_and_prepare_main_def)
next
  show "getitem (columns_main (read_data_and_prepare_main table)) ''games_played_quartile''
        = Inl (KeyError ''games_played_quartile'')"
    by (simp add: getitem_def columns_main_def read_data_and_prepare_main_def)
qed

theorem metric_stages_keep_existing_columns_witness:
  "''monthly_revenue'' \<noteq> ''churned'' \<and> ''monthly_revenue'' \<noteq> ''games_played_quartile''
   \<and> user_segmentation False (read_data_and_prepare_main [user_a, user_b])
       = Inr ([(Q1, Fin 30), (Q2, NaN), (Q3, NaN), (Q4, Fin 30)],
              \<lparr>rows = map derive_main [user_a, user_b],
               churned_col = None, quartile_col = Some [Some Q1, Some Q4]\<rparr>)
   \<and> getitem (columns_main (read_data_and_prepare_main [user_a, user_b])) ''monthly_revenue''
       = Inr (Floats [Fin 30, Fin 15])
   \<and> getitem (columns_main
        (identify_churn_users (Timestamp 20090) (read_data_and_prepare_main [user_a, user_b]) 30))
        ''monthly_revenue''
       = Inr (Floats [Fin 30, Fin 15])
   \<and> getitem (columns_main
        \<lparr>rows = map derive_main [user_a, user_b],
         churned_col = None, quartile_col = Some [Some Q1, Some Q4]\<rparr>) ''monthly_revenue''
       = Inr (Floats [Fin 30, Fin 15])"
proof -
  let ?df = "read_data_and_prepare_main [user_a, user_b]"
  let ?s = "[(Q1, Fin 30), (Q2, NaN), (Q3, NaN), (Q4, Fin 30)]"
  let ?df' = "\<lparr>rows = map derive_main [user_a, user_b],
               churned_col = None, quartile_col = Some [Some Q1, Some Q4]\<rparr>"
  have n1: "''monthly_revenue'' \<noteq> ''churned''" by simp
  have n2: "''monthly_revenue'' \<noteq> ''games_played_quartile''" by simp
  have h: "user_segmentation False ?df = Inr (?s, ?df')"
    by code_simp
  have c: "getitem (columns_main ?df) ''monthly_revenue'' = Inr (Floats [Fin 30, Fin 15])"
    by code_simp
  note t = metric_stages_keep_existing_columns
    [where today = "Timestamp 20090" and df = ?df and cutoff_days = 30
       and name = "''monthly_revenue''" and observed = False and s = ?s and df' = ?df'
       and table = "[user_a, user_b]"]
  have a: "getitem (columns_main (identify_churn_users (Timestamp 20090) ?df 30)) ''monthly_revenue''
          = getitem (columns_main ?df) ''monthly_revenue''"
    using t n1 by blast
  have b: "getitem (columns_main ?df') ''monthly_revenue'' = getitem (columns_main ?df) ''monthly_revenue''"
    using t h n2 by blast
  from n1 n2 h c a b show ?thesis by (simp only:) simp
qed

section \<open>The batch CLV and the mean deposit\<close>




section \<open>Further properties of the programs\<close>

text \<open>
  When \<^verbatim>\<open>pd.qcut\<close> with the four labels returns, under either treatment of repeated
  edges, the column is not empty, every row has exactly one of the four labels, and the
  populations of the four buckets add up to the number of rows.
\<close>

theorem qcut_assigns_every_row:
  assumes "qcut x [Q1, Q2, Q3, Q4] dup = Inr q"
  shows "x \<noteq> [] \<and> length q = length x
       \<and> (\<forall>i < length x. \<exists>l. q ! i = Some l)
       \<and> length (filter (\<lambda>c. c = Some Q1) q) + length (filter (\<lambda>c. c = Some Q2) q)
         + length (filter (\<lambda>c. c = Some Q3) q) + length (filter (\<lambda>c. c = Some Q4) q) = length x"
proof -
  let ?xs = "map real_of_int x"
  let ?bins = "map (quantile4 ?xs) [0, 1, 2, 3, 4]"
  from qcut_success [OF assms] have ne: "x \<noteq> []"
    and q: "q = map (cut_label ?bins [Q1, Q2, Q3, Q4]) ?xs"
    by simp_all
  have l: "length q = length x" using q by simp
  have s: "\<forall>i < length x. \<exists>l. q ! i = Some l"
  proof (intro allI impI)
    fix i assume i: "i < length x"
    then have "?xs ! i \<in> set ?xs" by (metis length_map nth_mem)
    then have "\<exists>l. cut_label ?bins [Q1, Q2, Q3, Q4] (?xs ! i) = Some l"
      by (rule cut_label_Some)
    then show "\<exists>l. q ! i = Some l" using q i by simp
  qed
  have "\<forall>c \<in> set q. c \<noteq> None"
    using s l by (metis in_set_conv_nth option.distinct(1))
  then have "length (filter (\<lambda>c. c = Some Q1) q) + length (filter (\<lambda>c. c = Some Q2) q)
         + length (filter (\<lambda>c. c = Some Q3) q) + length (filter (\<lambda>c. c = Some Q4) q) = length q"
    by (rule populations_sum)
  with ne l s show ?thesis by simp
qed

theorem qcut_assigns_every_row_witness:
  "qcut [0, 4, 8, 12, 16] [Q1, Q2, Q3, Q4] Drop = Inr [Some Q1, Some Q1, Some Q2, Some Q3, Some Q4]
   \<and> length [Some Q1, Some Q1, Some Q2, Some Q3, Some Q4] = length [0, 4, 8, 12, 16 :: int]"
proof -
  have h: "qcut [0, 4, 8, 12, 16] [Q1, Q2, Q3, Q4] Drop
             = Inr [Some Q1, Some Q1, Some Q2, Some Q3, Some Q4]"
    by code_simp
  from qcut_assigns_every_row [OF h] h show ?thesis by blast
qed


text \<open>
  The dashboard's derivation floors the lifetime at one day: every derived record has
  \<^verbatim>\<open>lifetime_days\<close> at least 1 and a positive lifetime in months, and its monthly
  revenue is the finite quotient of the deposit by the months.
\<close>

theorem lifetime_days_floor_app:
  assumes "read_data_and_prepare_app session table = Inr df" and "r \<in> set (rows df)"
  shows "1 \<le> lifetime_days r \<and> 0 < lifetime_months r
       \<and> app_monthly_revenue r = Fin (total_deposit r / lifetime_months r)"
proof -
  from assms obtain today u where "r = derive_app today u"
    by (auto simp: read_data_and_prepare_app_def split: option.splits)
  then show ?thesis by (simp only: derive_app_floor)
qed

theorem lifetime_days_floor_app_witness:
  "read_data_and_prepare_app [''as_of_ts'' \<mapsto> Timestamp 20090] [user_c]
     = Inr \<lparr>rows = [derive_app (Timestamp 20090) user_c], churned_col = None, quartile_col = None\<rparr>
   \<and> 1 \<le> lifetime_days (derive_app (Timestamp 20090) user_c)
   \<and> 0 < lifetime_months (derive_app (Timestamp 20090) user_c)"
proof -
  let ?df = "\<lparr>rows = [derive_app (Timestamp 20090) user_c], churned_col = None,
              quartile_col = (None :: label option list option)\<rparr>"
  have h: "read_data_and_prepare_app [''as_of_ts'' \<mapsto> Timestamp 20090] [user_c] = Inr ?df"
    by (simp add: read_data_and_prepare_app_def)
  have m: "derive_app (Timestamp 20090) user_c \<in> set (rows ?df)" by simp
  from lifetime_days_floor_app [OF h m] h show ?thesis by blast
qed


text \<open>
  A run of the dashboard with an uploaded file always ends in the KeyError of its CLV
  estimator, before any metric is shown.
\<close>

theorem dashboard_clv_raises:
  "app_script session as_of cutoff_days (Some table) = Inl (KeyError ''cust_lifetime_months'')"
  by (simp add: app_script_def read_data_and_prepare_app_def tag_churn_def Let_def
      calculate_avg_clv_app_KeyError)


text \<open>
  Whenever the batch script reaches its report, the churn rate is a number between 0
  and 1.
\<close>

theorem churn_rate_in_unit_interval:
  assumes "main observed today table = Inr rep"
  shows "\<exists>x. rep_churn_rate rep = Fin x \<and> 0 \<le> x \<and> x \<le> 1"
proof -
  let ?df = "identify_churn_users today (read_data_and_prepare_main table) 30"
  let ?c = "map (\<lambda>r. last_login_date r < today - Timedelta 30) (map derive_main table)"
  have c: "churned_col ?df = Some ?c" and r: "rows ?df = map derive_main table"
    by (simp_all add: identify_churn_users_def read_data_and_prepare_main_def Let_def)
  from assms obtain s df' where seg: "user_segmentation observed ?df = Inr (s, df')"
    and rate: "rep_churn_rate rep
                 = fdiv (real (length (filter (\<lambda>b. b) ?c))) (real (length (rows ?df)))"
    unfolding main_def Let_def c by (auto split: sum.splits)
  from seg obtain q where "qcut (map total_games_played (rows ?df)) [Q1, Q2, Q3, Q4] Raise = Inr q"
    by (auto simp: user_segmentation_def split: sum.splits)
  then have "map total_games_played (rows ?df) \<noteq> []"
    using qcut_success by blast
  then have n: "0 < length table" using r by simp
  have k: "length (filter (\<lambda>b. b) ?c) \<le> length table"
    using length_filter_le [of "\<lambda>b. b" ?c] by simp
  have "rep_churn_rate rep = Fin (real (length (filter (\<lambda>b. b) ?c)) / real (length table))"
    using rate n r by (simp add: fdiv_def)
  moreover have "0 \<le> real (length (filter (\<lambda>b. b) ?c)) / real (length table)" by simp
  moreover have "real (length (filter (\<lambda>b. b) ?c)) / real (length table) \<le> 1"
    using n k by (simp add: divide_le_eq_1)
  ultimately show ?thesis by blast
qed

theorem churn_rate_in_unit_interval_witness:
  "(\<exists>rep. main False (Timestamp 20070) [user_a, user_b] = Inr rep \<and> rep_churn_rate rep = Fin (1 / 2))"
proof -
  have "map_sum id rep_churn_rate (main False (Timestamp 20070) [user_a, user_b]) = Inr (Fin (1 / 2))"
    by code_simp
  then obtain rep where h: "main False (Timestamp 20070) [user_a, user_b] = Inr rep"
    and v: "rep_churn_rate rep = Fin (1 / 2)"
    by (cases "main False (Timestamp 20070) [user_a, user_b]") auto
  from churn_rate_in_unit_interval [OF h] obtain x where "rep_churn_rate rep = Fin x" by blast
  with h v show ?thesis by blast
qed


end
